theory Spec2Isabelle
  imports Main "HOL-Library.Word"
begin

unbundle bit_operations_syntax

section \<open>The GPIO polling loop of the LedsSwitches example\<close>

text \<open>
  The program is one function, \<open>main\<close>, over three memory-mapped registers. The target is
  a 32-bit RISC-V core: \<open>int\<close>, \<open>unsigned\<close> and addresses are 32 bits wide, so all three
  are \<open>32 word\<close>, and a variable of type \<open>int\<close> holds the two's complement bit pattern
  of its value (\<open>sint\<close> reads it). Two steps of the program are implementation-defined in
  C and are modelled as the RISC-V compiler defines them: converting an \<open>unsigned\<close> to
  \<open>int\<close> keeps the bit pattern (reduction modulo \<open>2 ^ 32\<close>), and \<open>>>\<close> on a negative
  \<open>int\<close> shifts copies of the sign bit in (the arithmetic shift, \<open>signed_drop_bit\<close>);
  \<open>>>\<close> on an \<open>unsigned\<close> would be the logical shift, \<open>drop_bit\<close>.
\<close>

type_synonym u32 = "32 word"

subsection \<open>The register addresses (lines 1 to 3)\<close>

definition GPIO_SWs :: u32 where
  "GPIO_SWs = 0x80001400"

definition GPIO_LEDs :: u32 where
  "GPIO_LEDs = 0x80001404"

definition GPIO_INOUT :: u32 where
  "GPIO_INOUT = 0x80001408"

subsection \<open>Volatile accesses as events\<close>

text \<open>
  Every volatile access is observable and happens in program order, so the state carries
  the list of accesses made so far, oldest first: \<open>Rd a v\<close> is a read of address \<open>a\<close>
  that returned \<open>v\<close>, \<open>Wr a v\<close> a write of \<open>v\<close> to address \<open>a\<close>.
  The hardware is outside the program: the value a read returns is given by a function of
  the accesses made so far and of the address read, which covers every sequence of values
  a register may hold, whether or not it depends on the time or on earlier writes.
\<close>

datatype event = Rd u32 u32 | Wr u32 u32

type_synonym hw = "event list \<Rightarrow> u32 \<Rightarrow> u32"

text \<open>The local variables of \<open>main\<close> (line 10) and the accesses made so far.\<close>

record state =
  En_Value :: u32
  switches_value :: u32
  trace :: "event list"

text \<open>\<^verbatim>\<open>#define READ_GPIO(dir) (*(volatile unsigned *)dir)\<close>\<close>

definition READ_GPIO :: "hw \<Rightarrow> u32 \<Rightarrow> state \<Rightarrow> u32 \<times> state" where
  "READ_GPIO h dir s =
     (let v = h (trace s) dir in (v, s\<lparr>trace := trace s @ [Rd dir v]\<rparr>))"

text \<open>\<^verbatim>\<open>#define WRITE_GPIO(dir, value) { (*(volatile unsigned *)dir) = (value); }\<close>\<close>

definition WRITE_GPIO :: "u32 \<Rightarrow> u32 \<Rightarrow> state \<Rightarrow> state" where
  "WRITE_GPIO dir val s = s\<lparr>trace := trace s @ [Wr dir val]\<rparr>"

subsection \<open>The function \<open>main\<close> (lines 8 to 21)\<close>

text \<open>
  Line 10: \<open>En_Value\<close> is initialised to \<open>0xFFFF\<close>; \<open>switches_value\<close> is not initialised
  and starts with whatever the stack holds, the parameter \<open>g\<close>.
\<close>

definition main_locals :: "u32 \<Rightarrow> state" where
  "main_locals g = \<lparr>En_Value = 0xFFFF, switches_value = g, trace = []\<rparr>"

text \<open>Line 12: \<^verbatim>\<open>WRITE_GPIO(GPIO_INOUT, En_Value);\<close>\<close>

definition startup :: "u32 \<Rightarrow> state" where
  "startup g = (let s = main_locals g in WRITE_GPIO GPIO_INOUT (En_Value s) s)"

text \<open>
  Lines 15 to 17, the body of the loop:
  \<^verbatim>\<open>switches_value = READ_GPIO(GPIO_SWs);\<close>
  \<^verbatim>\<open>switches_value = switches_value >> 16;\<close>
  \<^verbatim>\<open>WRITE_GPIO(GPIO_LEDs, switches_value);\<close>
\<close>

definition loop_body :: "hw \<Rightarrow> state \<Rightarrow> state" where
  "loop_body h s =
     (let (v, s1) = READ_GPIO h GPIO_SWs s;
          s2 = s1\<lparr>switches_value := v\<rparr>;
          s3 = s2\<lparr>switches_value := signed_drop_bit 16 (switches_value s2)\<rparr>
      in WRITE_GPIO GPIO_LEDs (switches_value s3) s3)"

text \<open>
  Line 14, \<^verbatim>\<open>while (1) { ... }\<close>, with fuel: the loop tests its condition, the constant
  \<open>1\<close>, before every iteration and leaves when it is zero. \<open>Inl s\<close> is a loop still
  running in state \<open>s\<close> when the fuel ran out, \<open>Inr s\<close> a loop that was left in state \<open>s\<close>.
\<close>

fun while_loop :: "nat \<Rightarrow> hw \<Rightarrow> state \<Rightarrow> state + state" where
  "while_loop 0 h s = Inl s"
| "while_loop (Suc n) h s =
     (if (1 :: u32) \<noteq> 0 then while_loop n h (loop_body h s) else Inr s)"

text \<open>
  \<open>main\<close> with fuel \<open>n\<close>: the result is \<open>None\<close> while the loop runs and \<open>Some 0\<close> once
  line 20, \<^verbatim>\<open>return(0);\<close>, is reached; the state holds the accesses made.
\<close>

definition main :: "nat \<Rightarrow> hw \<Rightarrow> u32 \<Rightarrow> u32 option \<times> state" where
  "main n h g =
     (case while_loop n h (startup g) of
        Inl s \<Rightarrow> (None, s)
      | Inr s \<Rightarrow> (Some 0, s))"

text \<open>
  The same loop without fuel, as a partial function: \<open>None\<close> is a loop that never
  leaves, \<open>Some s\<close> a loop left in state \<open>s\<close>. \<open>main_returns\<close> is the value \<open>main\<close>
  returns, \<open>None\<close> when it never returns.
\<close>

partial_function (option) while_forever :: "hw \<Rightarrow> state \<Rightarrow> state option" where
  "while_forever h s =
     (if (1 :: u32) \<noteq> 0 then while_forever h (loop_body h s) else Some s)"

definition main_returns :: "hw \<Rightarrow> u32 \<Rightarrow> u32 option" where
  "main_returns h g =
     (case while_forever h (startup g) of
        None \<Rightarrow> None
      | Some s \<Rightarrow> Some 0)"

subsection \<open>Observations on a list of accesses\<close>

text \<open>The values written to address \<open>a\<close>, and the values read from it, in order.\<close>

fun writes_to :: "u32 \<Rightarrow> event list \<Rightarrow> u32 list" where
  "writes_to a [] = []"
| "writes_to a (Wr b v # es) = (if b = a then v # writes_to a es else writes_to a es)"
| "writes_to a (Rd b v # es) = writes_to a es"

fun reads_from :: "u32 \<Rightarrow> event list \<Rightarrow> u32 list" where
  "reads_from a [] = []"
| "reads_from a (Rd b v # es) = (if b = a then v # reads_from a es else reads_from a es)"
| "reads_from a (Wr b v # es) = reads_from a es"

text \<open>The addresses written and the addresses read.\<close>

fun written :: "event list \<Rightarrow> u32 set" where
  "written [] = {}"
| "written (Wr a v # es) = insert a (written es)"
| "written (Rd a v # es) = written es"

fun read :: "event list \<Rightarrow> u32 set" where
  "read [] = {}"
| "read (Rd a v # es) = insert a (read es)"
| "read (Wr a v # es) = read es"

text \<open>A switch register that holds \<open>v\<close> whenever it is read.\<close>

definition switches_held :: "u32 \<Rightarrow> hw" where
  "switches_held v t a = v"

text \<open>
  Switch registers that hold the values of a list, one read after the other, and \<open>0\<close>
  once the list is used up.
\<close>

definition switches_seq :: "u32 list \<Rightarrow> hw" where
  "switches_seq vs t a =
     (let k = length (reads_from a t) in if k < length vs then vs ! k else 0)"

section \<open>The accesses of a run\<close>

lemma loop_body_trace:
  "trace (loop_body h s) =
     trace s @ [Rd GPIO_SWs (h (trace s) GPIO_SWs),
                Wr GPIO_LEDs (signed_drop_bit 16 (h (trace s) GPIO_SWs))]"
  by (simp add: loop_body_def READ_GPIO_def WRITE_GPIO_def Let_def)

lemma startup_trace: "trace (startup g) = [Wr GPIO_INOUT 0xFFFF]"
  by (simp add: startup_def main_locals_def WRITE_GPIO_def Let_def)

lemma addr_distinct:
  "GPIO_SWs \<noteq> GPIO_LEDs" "GPIO_SWs \<noteq> GPIO_INOUT" "GPIO_LEDs \<noteq> GPIO_INOUT"
  "GPIO_LEDs \<noteq> GPIO_SWs" "GPIO_INOUT \<noteq> GPIO_SWs" "GPIO_INOUT \<noteq> GPIO_LEDs"
  by (simp_all add: GPIO_SWs_def GPIO_LEDs_def GPIO_INOUT_def)

lemma writes_to_append: "writes_to a (xs @ ys) = writes_to a xs @ writes_to a ys"
  by (induction a xs rule: writes_to.induct) simp_all

lemma reads_from_append: "reads_from a (xs @ ys) = reads_from a xs @ reads_from a ys"
  by (induction a xs rule: reads_from.induct) simp_all

lemma written_append: "written (xs @ ys) = written xs \<union> written ys"
  by (induction xs rule: written.induct) simp_all

lemma read_append: "read (xs @ ys) = read xs \<union> read ys"
  by (induction xs rule: read.induct) simp_all

text \<open>
  The condition of the loop is the constant \<open>1\<close>, so a loop with fuel \<open>n\<close> runs its body
  \<open>n\<close> times and is still running.
\<close>

lemma while_loop_funpow: "while_loop n h s = Inl ((loop_body h ^^ n) s)"
  by (induction n arbitrary: s) (simp_all add: funpow_swap1)

lemma main_funpow: "main n h g = (None, (loop_body h ^^ n) (startup g))"
  by (simp add: main_def while_loop_funpow)

lemma main_trace_0: "trace (snd (main 0 h g)) = [Wr GPIO_INOUT 0xFFFF]"
  by (simp add: main_funpow startup_trace)

lemma main_trace_Suc:
  "trace (snd (main (Suc n) h g)) =
     trace (snd (main n h g)) @
       [Rd GPIO_SWs (h (trace (snd (main n h g))) GPIO_SWs),
        Wr GPIO_LEDs (signed_drop_bit 16 (h (trace (snd (main n h g))) GPIO_SWs))]"
  by (simp add: main_funpow loop_body_trace)

lemma main_trace_split:
  "\<exists>rest. trace (snd (main n h g)) = trace (startup g) @ rest \<and>
          writes_to GPIO_INOUT rest = []"
proof (induction n)
  case 0
  show ?case by (simp add: main_trace_0 startup_trace)
next
  case (Suc n)
  then obtain rest where
    r: "trace (snd (main n h g)) = trace (startup g) @ rest"
       "writes_to GPIO_INOUT rest = []"
    by blast
  let ?v = "h (trace (snd (main n h g))) GPIO_SWs"
  have "trace (snd (main (Suc n) h g)) =
          trace (startup g) @ (rest @ [Rd GPIO_SWs ?v, Wr GPIO_LEDs (signed_drop_bit 16 ?v)])"
    by (simp add: main_trace_Suc r(1))
  moreover have
    "writes_to GPIO_INOUT (rest @ [Rd GPIO_SWs ?v, Wr GPIO_LEDs (signed_drop_bit 16 ?v)]) = []"
    by (simp add: writes_to_append r(2) addr_distinct)
  ultimately show ?case by blast
qed

lemma main_dir_writes: "writes_to GPIO_INOUT (trace (snd (main n h g))) = [0xFFFF]"
proof -
  obtain rest where
    "trace (snd (main n h g)) = trace (startup g) @ rest" "writes_to GPIO_INOUT rest = []"
    using main_trace_split by blast
  then show ?thesis
    by (simp add: writes_to_append startup_trace)
qed

lemma main_led_writes:
  "writes_to GPIO_LEDs (trace (snd (main n h g))) =
     map (signed_drop_bit 16) (reads_from GPIO_SWs (trace (snd (main n h g))))"
  by (induction n)
     (simp_all add: main_trace_0 main_trace_Suc writes_to_append reads_from_append
        addr_distinct)

lemma main_written:
  "written (trace (snd (main n h g))) =
     (if n = 0 then {GPIO_INOUT} else {GPIO_LEDs, GPIO_INOUT})"
  by (induction n) (auto simp add: main_trace_0 main_trace_Suc written_append)

lemma main_read:
  "read (trace (snd (main n h g))) = (if n = 0 then {} else {GPIO_SWs})"
  by (induction n) (auto simp add: main_trace_0 main_trace_Suc read_append)

text \<open>The loop without fuel is never left.\<close>

lemma while_forever_Some: "while_forever h s = Some s' \<Longrightarrow> False"
  by (rule while_forever.raw_induct [where P = "\<lambda>h s s'. False"]) simp_all

lemma while_forever_None: "while_forever h s = None"
  using while_forever_Some [of h s] by (cases "while_forever h s") auto

section \<open>The shift of line 16\<close>

lemma upper_half: "(0xFFFF0000 :: u32) = push_bit 16 (mask 16)"
  by (simp add: mask_eq_exp_minus_1 push_bit_eq_mult)

lemma lower_half: "(0xFFFF :: u32) = mask 16"
  by (simp add: mask_eq_exp_minus_1)

lemma shift_nonneg: "\<not> bit V 31 \<Longrightarrow> signed_drop_bit 16 (V :: u32) = drop_bit 16 V"
  by (rule bit_word_eqI) (auto simp add: bit_simps dest: bit_imp_le_length)

lemma shift_neg: "bit V 31 \<Longrightarrow> signed_drop_bit 16 (V :: u32) = drop_bit 16 V OR 0xFFFF0000"
  unfolding upper_half
  by (rule bit_word_eqI) (auto simp add: bit_simps)

lemma shift_low: "signed_drop_bit 16 (V :: u32) AND 0xFFFF = drop_bit 16 V"
  unfolding lower_half
  by (rule bit_word_eqI) (auto simp add: bit_simps dest: bit_imp_le_length)

lemma shift_high:
  "drop_bit 16 (signed_drop_bit 16 (V :: u32)) = (if bit V 31 then 0xFFFF else 0)"
  unfolding lower_half
  by (rule bit_word_eqI) (auto simp add: bit_simps dest: bit_imp_le_length)

lemma shift_sign_extended:
  "signed_take_bit 15 (signed_drop_bit 16 (V :: u32)) = signed_drop_bit 16 V"
  by (rule bit_word_eqI) (auto simp add: bit_simps dest: bit_imp_le_length)

lemma drop_bit_upper_zero: "drop_bit 16 (V :: u32) AND 0xFFFF0000 = 0"
  unfolding upper_half
  by (rule bit_word_eqI) (auto simp add: bit_simps dest: bit_imp_le_length)

lemma or_upper_eq_add: "drop_bit 16 (V :: u32) OR 0xFFFF0000 = V div 2 ^ 16 + 0xFFFF0000"
proof -
  have "drop_bit 16 V + push_bit 16 (mask 16) = drop_bit 16 V OR push_bit 16 (mask 16 :: u32)"
    by (rule disjunctive_add_eq_or, rule bit_word_eqI)
       (auto simp add: bit_simps dest: bit_imp_le_length)
  then show ?thesis
    by (simp add: upper_half drop_bit_eq_div)
qed

lemma sint_shift: "sint (signed_drop_bit 16 (V :: u32)) = sint V div 2 ^ 16"
  by (simp add: sint_signed_drop_bit_eq drop_bit_eq_div)

section \<open>The claims\<close>

subsection \<open>The value written to the LEDs in one iteration\<close>

text \<open>
  C6. If the Switch Input Register holds \<open>0x12340000\<close> when it is read in a loop
  iteration, the value written to the LED Output Register in that iteration is
  \<open>0x00001234\<close>: the iteration adds exactly that read and that write to the accesses.
\<close>

theorem iteration_0x12340000:
  assumes "h (trace s) GPIO_SWs = 0x12340000"
  shows "trace (loop_body h s) =
           trace s @ [Rd GPIO_SWs 0x12340000, Wr GPIO_LEDs 0x00001234]"
  using assms by (simp add: loop_body_trace)

theorem iteration_0x12340000_witness:
  "switches_held 0x12340000 (trace (startup 0)) GPIO_SWs = 0x12340000 \<and>
   trace (loop_body (switches_held 0x12340000) (startup 0)) =
     [Wr GPIO_INOUT 0xFFFF, Rd GPIO_SWs 0x12340000, Wr GPIO_LEDs 0x00001234]"
proof -
  have r: "switches_held 0x12340000 (trace (startup 0)) GPIO_SWs = 0x12340000"
    by (simp add: switches_held_def)
  show ?thesis
    using r iteration_0x12340000 [of "switches_held 0x12340000" "startup 0", OF r] by (simp add: startup_trace)
qed

text \<open>
  C1. For every value \<open>V\<close> with its lower 16 bits zero that the Switch Input Register
  holds when it is read in a loop iteration, the lower 16 bits of the value written to the
  LED Output Register in that iteration are \<open>V\<close> shifted right by 16 bits; when bit 31 of
  \<open>V\<close> is clear, the whole value written is \<open>V\<close> logically shifted right by 16 bits, with
  its upper 16 bits all zero.
\<close>

theorem iteration_low_half_zero:
  assumes "h (trace s) GPIO_SWs = V" and "V AND 0xFFFF = 0"
  shows "trace (loop_body h s) =
           trace s @ [Rd GPIO_SWs V, Wr GPIO_LEDs (signed_drop_bit 16 V)] \<and>
         signed_drop_bit 16 V AND 0xFFFF = drop_bit 16 V \<and>
         (\<not> bit V 31 \<longrightarrow>
            signed_drop_bit 16 V = drop_bit 16 V \<and> drop_bit 16 V AND 0xFFFF0000 = 0)"
proof -
  have "trace (loop_body h s) =
          trace s @ [Rd GPIO_SWs V, Wr GPIO_LEDs (signed_drop_bit 16 V)]"
    using assms(1) by (simp add: loop_body_trace)
  moreover have "signed_drop_bit 16 V AND 0xFFFF = drop_bit 16 V"
    by (rule shift_low)
  moreover have "\<not> bit V 31 \<longrightarrow> signed_drop_bit 16 V = drop_bit 16 V"
    by (simp add: shift_nonneg)
  moreover have "drop_bit 16 V AND 0xFFFF0000 = 0"
    by (rule drop_bit_upper_zero)
  ultimately show ?thesis by blast
qed

theorem iteration_low_half_zero_witness:
  "switches_held 0x7FFF0000 (trace (startup 0)) GPIO_SWs = 0x7FFF0000 \<and>
   (0x7FFF0000 :: u32) AND 0xFFFF = 0 \<and> \<not> bit (0x7FFF0000 :: u32) 31 \<and>
   trace (loop_body (switches_held 0x7FFF0000) (startup 0)) =
     [Wr GPIO_INOUT 0xFFFF, Rd GPIO_SWs 0x7FFF0000, Wr GPIO_LEDs 0x00007FFF] \<and>
   drop_bit 16 (0x7FFF0000 :: u32) = 0x00007FFF"
proof -
  have r: "switches_held 0x7FFF0000 (trace (startup 0)) GPIO_SWs = 0x7FFF0000"
    by (simp add: switches_held_def)
  have z: "(0x7FFF0000 :: u32) AND 0xFFFF = 0"
    by simp
  have b: "\<not> bit (0x7FFF0000 :: u32) 31"
    by (simp add: bit_iff_odd)
  have d: "drop_bit 16 (0x7FFF0000 :: u32) = 0x00007FFF"
    by (simp add: drop_bit_eq_div)
  show ?thesis
    using r z b d
      iteration_low_half_zero [of "switches_held 0x7FFF0000" "startup 0" "0x7FFF0000", OF r z] by (simp add: startup_trace)
qed

text \<open>
  The claim as the specification states it, without the condition on bit 31, fails: the
  value \<open>0x80000000\<close> has its lower 16 bits zero, and the iteration that reads it writes
  \<open>0xFFFF8000\<close>, not \<open>0x00008000\<close>.
\<close>

theorem iteration_0x80000000_counterexample:
  "switches_held 0x80000000 (trace (startup 0)) GPIO_SWs = 0x80000000 \<and>
   (0x80000000 :: u32) AND 0xFFFF = 0 \<and>
   writes_to GPIO_LEDs (trace (loop_body (switches_held 0x80000000) (startup 0))) =
     [0xFFFF8000] \<and>
   writes_to GPIO_LEDs (trace (loop_body (switches_held 0x80000000) (startup 0))) \<noteq>
     [drop_bit 16 0x80000000]"
  by (simp add: loop_body_trace startup_trace switches_held_def writes_to_append
      addr_distinct drop_bit_eq_div)

text \<open>
  C2. If the Switch Input Register holds \<open>0xFFFF0000\<close> when it is read in a loop
  iteration, the value written to the LED Output Register in that iteration is
  \<open>0xFFFFFFFF\<close>: its lower 16 bits are \<open>0xFFFF\<close> and its upper 16 bits repeat bit 31 of
  the value read.
\<close>

theorem iteration_0xFFFF0000:
  assumes "h (trace s) GPIO_SWs = 0xFFFF0000"
  shows "trace (loop_body h s) =
           trace s @ [Rd GPIO_SWs 0xFFFF0000, Wr GPIO_LEDs 0xFFFFFFFF]"
  using assms by (simp add: loop_body_trace)

theorem iteration_0xFFFF0000_witness:
  "switches_held 0xFFFF0000 (trace (startup 0)) GPIO_SWs = 0xFFFF0000 \<and>
   trace (loop_body (switches_held 0xFFFF0000) (startup 0)) =
     [Wr GPIO_INOUT 0xFFFF, Rd GPIO_SWs 0xFFFF0000, Wr GPIO_LEDs 0xFFFFFFFF]"
proof -
  have r: "switches_held 0xFFFF0000 (trace (startup 0)) GPIO_SWs = 0xFFFF0000"
    by (simp add: switches_held_def)
  show ?thesis
    using r iteration_0xFFFF0000 [of "switches_held 0xFFFF0000" "startup 0", OF r] by (simp add: startup_trace)
qed

text \<open>The value written in that iteration is not \<open>0x0000FFFF\<close>.\<close>

theorem iteration_0xFFFF0000_counterexample:
  "switches_held 0xFFFF0000 (trace (startup 0)) GPIO_SWs = 0xFFFF0000 \<and>
   writes_to GPIO_LEDs (trace (loop_body (switches_held 0xFFFF0000) (startup 0))) =
     [0xFFFFFFFF] \<and>
   writes_to GPIO_LEDs (trace (loop_body (switches_held 0xFFFF0000) (startup 0))) \<noteq>
     [0x0000FFFF]"
  by (simp add: loop_body_trace startup_trace switches_held_def writes_to_append
      addr_distinct)

text \<open>
  C8. The shift is arithmetic: for every value \<open>V\<close> read from the Switch Input Register
  whose bit 31 is set, the value written to the LED Output Register is
  \<open>V div 2 ^ 16 + 0xFFFF0000\<close> in 32-bit arithmetic, which is \<open>V\<close> shifted right by 16
  bits with the upper 16 bits all ones, and as a signed number it is the signed value of
  \<open>V\<close> divided by \<open>2 ^ 16\<close>, rounded down.
\<close>

theorem iteration_bit31_set:
  assumes "h (trace s) GPIO_SWs = V" and "bit V 31"
  shows "trace (loop_body h s) =
           trace s @ [Rd GPIO_SWs V, Wr GPIO_LEDs (V div 2 ^ 16 + 0xFFFF0000)] \<and>
         V div 2 ^ 16 + 0xFFFF0000 = drop_bit 16 V OR 0xFFFF0000 \<and>
         drop_bit 16 (V div 2 ^ 16 + 0xFFFF0000) = 0xFFFF \<and>
         sint (V div 2 ^ 16 + 0xFFFF0000) = sint V div 2 ^ 16"
proof -
  have e: "signed_drop_bit 16 V = V div 2 ^ 16 + 0xFFFF0000"
    using assms(2) by (simp add: shift_neg or_upper_eq_add)
  have "trace (loop_body h s) =
          trace s @ [Rd GPIO_SWs V, Wr GPIO_LEDs (V div 2 ^ 16 + 0xFFFF0000)]"
    using assms(1) by (simp add: loop_body_trace e)
  moreover have "V div 2 ^ 16 + 0xFFFF0000 = drop_bit 16 V OR 0xFFFF0000"
    by (simp add: or_upper_eq_add)
  moreover have "drop_bit 16 (V div 2 ^ 16 + 0xFFFF0000) = 0xFFFF"
    using shift_high [of V] assms(2) by (simp add: e)
  moreover have "sint (V div 2 ^ 16 + 0xFFFF0000) = sint V div 2 ^ 16"
    using sint_shift [of V] by (simp add: e)
  ultimately show ?thesis by blast
qed

theorem iteration_bit31_set_witness:
  "switches_held 0x80010000 (trace (startup 0)) GPIO_SWs = 0x80010000 \<and>
   bit (0x80010000 :: u32) 31 \<and>
   trace (loop_body (switches_held 0x80010000) (startup 0)) =
     [Wr GPIO_INOUT 0xFFFF, Rd GPIO_SWs 0x80010000, Wr GPIO_LEDs 0xFFFF8001]"
proof -
  have r: "switches_held 0x80010000 (trace (startup 0)) GPIO_SWs = 0x80010000"
    by (simp add: switches_held_def)
  have b: "bit (0x80010000 :: u32) 31"
    by (simp add: bit_iff_odd)
  show ?thesis
    using r b
      iteration_bit31_set [of "switches_held 0x80010000" "startup 0" "0x80010000", OF r b] by (simp add: startup_trace)
qed

subsection \<open>The startup write to the Direction Register\<close>

text \<open>
  C3. The single startup write to the Direction Register stores the mask \<open>0x0000FFFF\<close>:
  bits 0 to 15 are set and bits 16 to 31 are clear. It is the only access made before the
  loop, and the only value ever written to that register.
\<close>

theorem direction_mask:
  "trace (startup g) = [Wr GPIO_INOUT 0xFFFF] \<and>
   writes_to GPIO_INOUT (trace (snd (main n h g))) = [0xFFFF] \<and>
   (\<forall>i. bit (0xFFFF :: u32) i = (i < 16))"
proof -
  have "bit (0xFFFF :: u32) i = (i < 16)" for i
    unfolding lower_half by (auto simp add: bit_mask_iff)
  then show ?thesis
    by (simp add: startup_trace main_dir_writes)
qed

text \<open>The mask written is not the one with all 32 bits set: bit 16 of it is clear.\<close>

theorem direction_mask_counterexample:
  "writes_to GPIO_INOUT (trace (startup 0)) = [0xFFFF] \<and>
   writes_to GPIO_INOUT (trace (startup 0)) \<noteq> [0xFFFFFFFF] \<and>
   \<not> bit (0xFFFF :: u32) 16"
  by (simp add: startup_trace bit_iff_odd)

text \<open>
  C4. In every execution the Direction Register is written exactly once. The write is the
  one access made before the loop is entered, so it comes before the first read of the
  Switch Input Register, and nothing the loop does afterwards writes the Direction
  Register again.
\<close>

theorem direction_written_once:
  "\<exists>rest. trace (snd (main n h g)) = trace (startup g) @ rest \<and>
          trace (startup g) = [Wr GPIO_INOUT 0xFFFF] \<and>
          reads_from GPIO_SWs (trace (startup g)) = [] \<and>
          writes_to GPIO_INOUT rest = [] \<and>
          writes_to GPIO_INOUT (trace (snd (main n h g))) = [0xFFFF]"
proof -
  obtain rest where
    "trace (snd (main n h g)) = trace (startup g) @ rest" "writes_to GPIO_INOUT rest = []"
    using main_trace_split by blast
  then show ?thesis
    by (simp add: startup_trace main_dir_writes)
qed

subsection \<open>The loop is never left\<close>

text \<open>
  C5. The polling loop never terminates: whatever the hardware returns on the reads of
  the Switch Input Register, after any number of iterations the loop is still running
  and \<open>main\<close> has not reached its return statement; without fuel, the loop is never left
  and \<open>main\<close> never returns.
\<close>

theorem main_never_returns:
  "while_loop n h s = Inl ((loop_body h ^^ n) s) \<and>
   fst (main n h g) = None \<and>
   while_forever h s = None \<and>
   main_returns h g = None"
  by (simp add: while_loop_funpow main_funpow while_forever_None main_returns_def)

subsection \<open>The addresses accessed\<close>

text \<open>
  C7. The program never writes the Switch Input Register \<open>0x80001400\<close>. The addresses it
  writes are the Direction Register \<open>0x80001408\<close>, before the loop, and the LED Output
  Register \<open>0x80001404\<close>, in every iteration, and no other; the only address it reads is
  \<open>0x80001400\<close>.
\<close>

theorem addresses_accessed:
  "written (trace (snd (main n h g))) =
     (if n = 0 then {GPIO_INOUT} else {GPIO_LEDs, GPIO_INOUT}) \<and>
   read (trace (snd (main n h g))) = (if n = 0 then {} else {GPIO_SWs}) \<and>
   GPIO_SWs \<notin> written (trace (snd (main n h g))) \<and>
   GPIO_SWs = 0x80001400 \<and> GPIO_LEDs = 0x80001404 \<and> GPIO_INOUT = 0x80001408"
proof -
  have "GPIO_SWs \<notin> written (trace (snd (main n h g)))"
    by (simp add: main_written addr_distinct)
  then show ?thesis
    by (simp add: main_written main_read GPIO_SWs_def GPIO_LEDs_def GPIO_INOUT_def)
qed

subsection \<open>The LED writes as a function of the switch reads\<close>

text \<open>
  C9. The program carries no state from one iteration to the next. In every execution the
  values written to the LED Output Register are the values read from the Switch Input
  Register, each shifted by line 16; so two executions, whatever their hardware, their
  length and the initial content of \<open>switches_value\<close>, that read the same sequence of
  switch values write the same sequence of LED values. And two iterations, from any two
  states, that read the same switch value make the same two accesses.
\<close>

theorem led_writes_determined:
  "writes_to GPIO_LEDs (trace (snd (main n h g))) =
     map (signed_drop_bit 16) (reads_from GPIO_SWs (trace (snd (main n h g)))) \<and>
   (reads_from GPIO_SWs (trace (snd (main n h g))) =
      reads_from GPIO_SWs (trace (snd (main n' h' g'))) \<longrightarrow>
    writes_to GPIO_LEDs (trace (snd (main n h g))) =
      writes_to GPIO_LEDs (trace (snd (main n' h' g')))) \<and>
   (h (trace s) GPIO_SWs = h' (trace s') GPIO_SWs \<longrightarrow>
    drop (length (trace s)) (trace (loop_body h s)) =
      drop (length (trace s')) (trace (loop_body h' s')))"
  by (simp add: main_led_writes loop_body_trace)

theorem led_writes_determined_witness:
  "reads_from GPIO_SWs (trace (snd (main 2 (switches_seq [0x12340000, 0xFFFF0000]) 0))) =
     [0x12340000, 0xFFFF0000] \<and>
   reads_from GPIO_SWs
     (trace (snd (main 2 (switches_seq [0x12340000, 0xFFFF0000, 0x00050000]) 7))) =
     [0x12340000, 0xFFFF0000] \<and>
   writes_to GPIO_LEDs (trace (snd (main 2 (switches_seq [0x12340000, 0xFFFF0000]) 0))) =
     writes_to GPIO_LEDs
       (trace (snd (main 2 (switches_seq [0x12340000, 0xFFFF0000, 0x00050000]) 7))) \<and>
   switches_seq [0x12340000, 0xFFFF0000] (trace (startup 0)) GPIO_SWs =
     switches_seq [0x12340000, 0xFFFF0000, 0x00050000]
       (trace (WRITE_GPIO GPIO_LEDs 5 (startup 7))) GPIO_SWs \<and>
   drop (length (trace (startup 0)))
     (trace (loop_body (switches_seq [0x12340000, 0xFFFF0000]) (startup 0))) =
     drop (length (trace (WRITE_GPIO GPIO_LEDs 5 (startup 7))))
       (trace (loop_body (switches_seq [0x12340000, 0xFFFF0000, 0x00050000])
          (WRITE_GPIO GPIO_LEDs 5 (startup 7))))"
proof -
  have a: "reads_from GPIO_SWs
             (trace (snd (main 2 (switches_seq [0x12340000, 0xFFFF0000]) 0))) =
           [0x12340000, 0xFFFF0000]"
    by code_simp
  have b: "reads_from GPIO_SWs
             (trace (snd (main 2 (switches_seq [0x12340000, 0xFFFF0000, 0x00050000]) 7))) =
           [0x12340000, 0xFFFF0000]"
    by code_simp
  have c: "switches_seq [0x12340000, 0xFFFF0000] (trace (startup 0)) GPIO_SWs =
           switches_seq [0x12340000, 0xFFFF0000, 0x00050000]
             (trace (WRITE_GPIO GPIO_LEDs 5 (startup 7))) GPIO_SWs"
    by code_simp
  note t =
    led_writes_determined [of 2 "switches_seq [0x12340000, 0xFFFF0000]" 0
      2 "switches_seq [0x12340000, 0xFFFF0000, 0x00050000]" 7
      "startup 0" "WRITE_GPIO GPIO_LEDs 5 (startup 7)"]
  have ab: "reads_from GPIO_SWs
              (trace (snd (main 2 (switches_seq [0x12340000, 0xFFFF0000]) 0))) =
            reads_from GPIO_SWs
              (trace (snd (main 2 (switches_seq [0x12340000, 0xFFFF0000, 0x00050000]) 7)))"
    by (simp only: a b)
  from t ab have w:
    "writes_to GPIO_LEDs (trace (snd (main 2 (switches_seq [0x12340000, 0xFFFF0000]) 0))) =
     writes_to GPIO_LEDs
       (trace (snd (main 2 (switches_seq [0x12340000, 0xFFFF0000, 0x00050000]) 7)))"
    by blast
  from t c have d:
    "drop (length (trace (startup 0)))
       (trace (loop_body (switches_seq [0x12340000, 0xFFFF0000]) (startup 0))) =
     drop (length (trace (WRITE_GPIO GPIO_LEDs 5 (startup 7))))
       (trace (loop_body (switches_seq [0x12340000, 0xFFFF0000, 0x00050000])
          (WRITE_GPIO GPIO_LEDs 5 (startup 7))))"
    by blast
  from a b w c d show ?thesis
    by blast
qed

text \<open>
  C10. Every value written to the LED Output Register is the sign extension of a 16-bit
  value: its upper 16 bits are all ones when bit 31 of the switch value read in that
  iteration is set and all zero when it is clear, and the value is the sign extension of
  its own lower 16 bits.
\<close>

theorem led_writes_sign_extended:
  "map (drop_bit 16) (writes_to GPIO_LEDs (trace (snd (main n h g)))) =
     map (\<lambda>v. if bit v 31 then 0xFFFF else 0)
       (reads_from GPIO_SWs (trace (snd (main n h g)))) \<and>
   map (signed_take_bit 15) (writes_to GPIO_LEDs (trace (snd (main n h g)))) =
     writes_to GPIO_LEDs (trace (snd (main n h g)))"
  by (simp add: main_led_writes comp_def shift_high shift_sign_extended)

end
